theory Spec2Isabelle
  imports Main "HOL-Library.Sublist"
begin

section \<open>The retry engine and the condition algebra of selenidejs\<close>

text \<open>
  The development embeds \<^verbatim>\<open>src/lib/wait.ts\<close> (the types \<^verbatim>\<open>Query\<close>,
  \<^verbatim>\<open>Command\<close>, \<^verbatim>\<open>Condition\<close>, the namespace \<^verbatim>\<open>Condition\<close> and the class
  \<^verbatim>\<open>Wait\<close>) and the collection conditions of the condition library
  (\<^verbatim>\<open>src/unnamed/part_000\<close>).

  Conventions of the embedding.
  \<^item> Everything a query can read or change (the page, the driver, the wall clock) is the
    \<^emph>\<open>world\<close>, passed explicitly. \<^verbatim>\<open>new Date().getTime()\<close> reads the field
    \<open>getTime\<close> of the world. Time passes inside the invocations of the retried function:
    the world an invocation returns is the one in which the \<^verbatim>\<open>catch\<close> block reads
    the clock.
  \<^item> An asynchronous function settles with a value or with a rejection: \<open>Inr\<close> is the
    fulfilled promise, \<open>Inl\<close> the rejected one. The source's comment on \<^verbatim>\<open>Query\<close>
    speaks of a failure "with Error", but nothing in the types enforces it: a promise can
    be rejected with any value, \<^verbatim>\<open>undefined\<close> and \<^verbatim>\<open>null\<close> included.
  \<^item> \<^verbatim>\<open>this.entity.toString()\<close> gives a string or raises (a \<^verbatim>\<open>TypeError\<close> when the
    entity is \<^verbatim>\<open>null\<close> or \<^verbatim>\<open>undefined\<close>); the functions that evaluate it take it
    as the parameter \<open>toString\<close>.
  \<^item> Times and timeouts are whole milliseconds, of type \<open>int\<close>. The decimal text of a
    timeout is what JavaScript prints for the safe integers, those of absolute value at
    most \<open>2^53 - 1\<close>; what is proved about that text is proved for them.
  \<^item> The \<^verbatim>\<open>while (true)\<close> loop of \<^verbatim>\<open>Wait.query\<close> may run forever. It is
    modelled with fuel, the number of attempts that are observed; a run that is still
    looping when the fuel is used up has the outcome \<open>Pending\<close>.
\<close>

subsection \<open>Errors\<close>

text \<open>
  The two error classes of the library are imported by the sources and declared elsewhere.
  Both are errors with a message: \<^verbatim>\<open>new TimeoutError(m)\<close> has the message \<open>m\<close>;
  \<^verbatim>\<open>new ConditionNotMatchedError()\<close> has the message its class gives it, which the
  functions that throw it take as a parameter. \<open>Error\<close> and \<open>TypeError\<close> are
  JavaScript's own.
\<close>

datatype error =
    ConditionNotMatchedError (message: string)
  | TimeoutError (message: string)
  | TypeError (message: string)
  | Error (message: string)

text \<open>
  What a promise is rejected with, or a \<^verbatim>\<open>throw\<close> throws: \<^verbatim>\<open>undefined\<close>,
  \<^verbatim>\<open>null\<close>, an error object, or any other value (a string, a number, an object with
  no \<^verbatim>\<open>message\<close>), given by its string form.
\<close>

datatype reason = Undefined | Null | Plain string | Err error

text \<open>
  \<^verbatim>\<open>`${error.message}`\<close>: reading a property of \<^verbatim>\<open>undefined\<close> or \<^verbatim>\<open>null\<close>
  raises a \<^verbatim>\<open>TypeError\<close> (the wording of its message is the engine's, here V8's); a
  value with no \<^verbatim>\<open>message\<close> prints as \<open>undefined\<close>.
\<close>

fun errorMessage :: "reason \<Rightarrow> reason + string" where
  "errorMessage Undefined =
     Inl (Err (TypeError (''Cannot read properties of undefined (reading '' @ [CHR 0x27] @
       ''message'' @ [CHR 0x27] @ '')'')))"
| "errorMessage Null =
     Inl (Err (TypeError (''Cannot read properties of null (reading '' @ [CHR 0x27] @
       ''message'' @ [CHR 0x27] @ '')'')))"
| "errorMessage (Plain v) = Inr ''undefined''"
| "errorMessage (Err e) = Inr (message e)"

text \<open>
  \<^verbatim>\<open>x.toString()\<close> for a value that may be \<^verbatim>\<open>null\<close>: \<open>None\<close> is \<^verbatim>\<open>null\<close>.
\<close>

fun toStringOf :: "('a \<Rightarrow> string) \<Rightarrow> 'a option \<Rightarrow> reason + string" where
  "toStringOf str None =
     Inl (Err (TypeError (''Cannot read properties of null (reading '' @ [CHR 0x27] @
       ''toString'' @ [CHR 0x27] @ '')'')))"
| "toStringOf str (Some x) = Inr (str x)"

subsection \<open>The world and the described functions\<close>

record 'x world =
  getTime :: int
  page :: 'x

text \<open>
  A function value of JavaScript has a string form (\<^verbatim>\<open>fn.toString()\<close>, also what
  \<^verbatim>\<open>`${fn}`\<close> prints) and can be called. \<^verbatim>\<open>Query<T, R>\<close> is
  \<^verbatim>\<open>(entity: T) => Promise<R>\<close>.
\<close>

record ('e, 'r, 'x) Query =
  description :: string
  call :: "'e \<Rightarrow> 'x world \<Rightarrow> (reason + 'r) \<times> 'x world"

type_synonym ('e, 'x) Command = "('e, unit, 'x) Query"

type_synonym ('e, 'x) Condition = "('e, unit, 'x) Query"

text \<open>
  An anonymous \<^verbatim>\<open>async (entity) => ...\<close> before a description is attached to it: its
  body.
\<close>

type_synonym ('e, 'r, 'x) async = "'e \<Rightarrow> 'x world \<Rightarrow> (reason + 'r) \<times> 'x world"

text \<open>
  Modelled from the spec: \<^verbatim>\<open>Utils.lambda\<close> (\<^verbatim>\<open>lib/helpers/utils\<close>) is not among the
  sources. The spec: "wraps a function with an overridden human-readable description
  (used purely for diagnostics/logging; no behavioral effect)". In the sources its second
  argument is always an anonymous function.
\<close>

definition lambda :: "string \<Rightarrow> ('e, 'r, 'x) async \<Rightarrow> ('e, 'r, 'x) Query" where
  "lambda d body = \<lparr>description = d, call = body\<rparr>"

subsection \<open>Template literals\<close>


fun digits :: "nat \<Rightarrow> string" where
  "digits n =
     (if n < 10 then [''0123456789'' ! n]
      else digits (n div 10) @ [''0123456789'' ! (n mod 10)])"

declare digits.simps [simp del]

definition numberToString :: "int \<Rightarrow> string" where
  "numberToString i = (if i < 0 then CHR ''-'' # digits (nat (- i)) else digits (nat i))"

text \<open>
  Reading a decimal numeral, to say what number a text denotes. These two definitions are
  not taken from the source: they state what the printed timeout must be.
\<close>

definition natOfDigits :: "string \<Rightarrow> nat" where
  "natOfDigits ds = foldl (\<lambda>acc c. 10 * acc + (of_char c - 48)) 0 ds"

definition numberOfString :: "string \<Rightarrow> int" where
  "numberOfString txt =
     (case txt of
        [] \<Rightarrow> 0
      | c # ds \<Rightarrow> if c = CHR ''-'' then - int (natOfDigits ds) else int (natOfDigits (c # ds)))"

text \<open>
  The decimal numerals as JavaScript prints them: digits only after an optional minus
  sign, no leading zero, no \<open>-0\<close>. Every whole number has exactly one.
\<close>

definition isDigit :: "char \<Rightarrow> bool" where
  "isDigit c = (c \<in> set ''0123456789'')"

definition canonicalDigits :: "string \<Rightarrow> bool" where
  "canonicalDigits ds = (ds \<noteq> [] \<and> list_all isDigit ds \<and> (hd ds = CHR ''0'' \<longrightarrow> ds = ''0''))"

definition canonicalNumeral :: "string \<Rightarrow> bool" where
  "canonicalNumeral txt =
     (case txt of
        [] \<Rightarrow> False
      | c # ds \<Rightarrow>
          if c = CHR ''-'' then canonicalDigits ds \<and> ds \<noteq> ''0'' else canonicalDigits (c # ds))"

abbreviation LF :: char where "LF \<equiv> CHR 0x0A"

abbreviation TAB :: char where "TAB \<equiv> CHR 0x09"

subsection \<open>The class \<open>Wait\<close>\<close>

text \<open>
  Modelled from the spec: the type \<^verbatim>\<open>OnFailureHook\<close> (\<^verbatim>\<open>lib/refactor/onFailureHook\<close>)
  is not among the sources. The spec: "a callback invoked (conceptually) on failure for
  side-channel diagnostics", \<^verbatim>\<open>() \<rightarrow> Promise<void> | void\<close>: an action on the world.
\<close>

type_synonym 'x OnFailureHook = "'x world \<Rightarrow> 'x world"

record ('e, 'x) Wait =
  entity :: 'e
  timeout :: int
  onFailureHooks :: "'x OnFailureHook list"

text \<open>The constructor assigns its three arguments to the three fields.\<close>

definition new_Wait :: "'e \<Rightarrow> int \<Rightarrow> 'x OnFailureHook list \<Rightarrow> ('e, 'x) Wait" where
  "new_Wait e t hs = \<lparr>entity = e, timeout = t, onFailureHooks = hs\<rparr>"

text \<open>The state a method of \<^verbatim>\<open>Wait\<close> runs in: the object itself and the world.\<close>

record ('e, 'x) state =
  self :: "('e, 'x) Wait"
  world :: "'x world"

text \<open>
  What is observed of a call. \<open>attempts\<close> is the journal of the invocations of the
  retried function, in order: what each one settled with and, for a failed one, the
  clock value the \<^verbatim>\<open>catch\<close> block read.
\<close>

datatype 'r attempt = Passed 'r | Failed reason int

datatype 'r outcome = Returned 'r | Thrown reason | Pending

record ('r, 's, 'a) run =
  outcome :: "'r outcome"
  final :: 's
  attempts :: "'a attempt list"

text \<open>
  The argument of \<^verbatim>\<open>new TimeoutError(...)\<close> in \<^verbatim>\<open>Wait.query\<close>: the concatenation
  of a line feed, \<^verbatim>\<open>`\tTimed out after ${timeout}ms, while waiting for:\n`\<close>,
  \<^verbatim>\<open>`\t${this.entity.toString()}.${fn.toString()}\n`\<close>, \<^verbatim>\<open>'Reason:\n'\<close> and
  \<^verbatim>\<open>`\t${error.message}`\<close>.
\<close>

definition timeoutMessage :: "int \<Rightarrow> string \<Rightarrow> string \<Rightarrow> string \<Rightarrow> string" where
  "timeoutMessage tmo entityString fnString cause =
     [LF] @
     [TAB] @ ''Timed out after '' @ numberToString tmo @ ''ms, while waiting for:'' @ [LF] @
     [TAB] @ entityString @ ''.'' @ fnString @ [LF] @
     ''Reason:'' @ [LF] @
     [TAB] @ cause"

text \<open>
  The statement \<^verbatim>\<open>throw new TimeoutError(...)\<close> of the \<^verbatim>\<open>catch\<close> block: what it
  throws. The operands of the concatenation are evaluated from left to right and nothing
  guards them: when \<^verbatim>\<open>this.entity.toString()\<close> raises, or when reading
  \<^verbatim>\<open>error.message\<close> does, that is what leaves the block, and no \<^verbatim>\<open>TimeoutError\<close>
  is made.
\<close>

definition throwTimeoutError :: "int \<Rightarrow> reason + string \<Rightarrow> string \<Rightarrow> reason \<Rightarrow> reason" where
  "throwTimeoutError tmo entityString fnString err =
     (case entityString of
        Inl raised \<Rightarrow> raised
      | Inr es \<Rightarrow>
          (case errorMessage err of
             Inl raised \<Rightarrow> raised
           | Inr m \<Rightarrow> Err (TimeoutError (timeoutMessage tmo es fnString m))))"

text \<open>
  The loop of \<^verbatim>\<open>Wait.query\<close>. \<open>toString\<close> evaluates \<^verbatim>\<open>toString()\<close> on a value of
  the entity's type; \<open>tmo\<close> is the local \<^verbatim>\<open>timeout\<close>, \<open>finishTime\<close> the local of
  that name. \<^verbatim>\<open>this.entity\<close> is read at every attempt. The \<^verbatim>\<open>catch\<close> clause
  catches whatever the attempt was rejected with.
\<close>

fun retry ::
  "nat \<Rightarrow> ('e \<Rightarrow> reason + string) \<Rightarrow> ('e, 'r, 'x) Query \<Rightarrow> int \<Rightarrow> int \<Rightarrow> ('e, 'x) state \<Rightarrow>
   'r attempt list \<Rightarrow> ('r, ('e, 'x) state, 'r) run" where
  "retry 0 toString f tmo finishTime s journal =
     \<lparr>outcome = Pending, final = s, attempts = journal\<rparr>"
| "retry (Suc n) toString f tmo finishTime s journal =
     (case call f (entity (self s)) (world s) of
        (Inr r, w') \<Rightarrow>
          \<lparr>outcome = Returned r, final = s\<lparr>world := w'\<rparr>, attempts = journal @ [Passed r]\<rparr>
      | (Inl err, w') \<Rightarrow>
          if getTime w' > finishTime
          then \<lparr>outcome = Thrown
                   (throwTimeoutError tmo (toString (entity (self s))) (description f) err),
                 final = s\<lparr>world := w'\<rparr>,
                 attempts = journal @ [Failed err (getTime w')]\<rparr>
          else retry n toString f tmo finishTime (s\<lparr>world := w'\<rparr>)
                 (journal @ [Failed err (getTime w')]))"

text \<open>
  \<^verbatim>\<open>query(fn, timeout = this.timeout)\<close>: the default is taken when no timeout is
  passed; the deadline is computed before the loop.
\<close>

definition query ::
  "nat \<Rightarrow> ('e \<Rightarrow> reason + string) \<Rightarrow> ('e, 'r, 'x) Query \<Rightarrow> int option \<Rightarrow> ('e, 'x) state \<Rightarrow>
   ('r, ('e, 'x) state, 'r) run" where
  "query n toString f t s =
     (let tmo = (case t of None \<Rightarrow> timeout (self s) | Some t' \<Rightarrow> t');
          finishTime = getTime (world s) + tmo
      in retry n toString f tmo finishTime s [])"

text \<open>\<^verbatim>\<open>until\<close>: \<^verbatim>\<open>this.query(fn, timeout).then(res => true, err => false)\<close>.\<close>

definition until ::
  "nat \<Rightarrow> ('e \<Rightarrow> reason + string) \<Rightarrow> ('e, 'x) Condition \<Rightarrow> int option \<Rightarrow> ('e, 'x) state \<Rightarrow>
   (bool, ('e, 'x) state, unit) run" where
  "until n toString f t s =
     (let q = query n toString f t s
      in \<lparr>outcome = (case outcome q of
                        Returned res \<Rightarrow> Returned True
                      | Thrown err \<Rightarrow> Returned False
                      | Pending \<Rightarrow> Pending),
          final = final q, attempts = attempts q\<rparr>)"

text \<open>\<^verbatim>\<open>command\<close>: \<^verbatim>\<open>await this.query(fn, timeout)\<close>, the result dropped.\<close>

definition command ::
  "nat \<Rightarrow> ('e \<Rightarrow> reason + string) \<Rightarrow> ('e, 'x) Command \<Rightarrow> int option \<Rightarrow> ('e, 'x) state \<Rightarrow>
   (unit, ('e, 'x) state, unit) run" where
  "command n toString f t s =
     (let q = query n toString f t s
      in \<lparr>outcome = (case outcome q of
                        Returned res \<Rightarrow> Returned ()
                      | Thrown err \<Rightarrow> Thrown err
                      | Pending \<Rightarrow> Pending),
          final = final q, attempts = attempts q\<rparr>)"

text \<open>
  A caller's program: method calls on one \<^verbatim>\<open>Wait\<close>, one after the other, each observed
  for its own number of attempts and each with or without a timeout of its own.
\<close>

datatype ('e, 'r, 'x) invocation =
    CallUntil "('e, 'x) Condition" "int option"
  | CallCommand "('e, 'x) Command" "int option"
  | CallQuery "('e, 'r, 'x) Query" "int option"

fun invoke ::
  "('e \<Rightarrow> reason + string) \<Rightarrow> nat \<times> ('e, 'r, 'x) invocation \<Rightarrow> ('e, 'x) state \<Rightarrow> ('e, 'x) state" where
  "invoke toString (n, CallUntil f t) s = final (until n toString f t s)"
| "invoke toString (n, CallCommand f t) s = final (command n toString f t s)"
| "invoke toString (n, CallQuery f t) s = final (query n toString f t s)"

fun invokeAll ::
  "('e \<Rightarrow> reason + string) \<Rightarrow> (nat \<times> ('e, 'r, 'x) invocation) list \<Rightarrow> ('e, 'x) state \<Rightarrow>
   ('e, 'x) state" where
  "invokeAll toString [] s = s"
| "invokeAll toString (c # cs) s = invokeAll toString cs (invoke toString c s)"

text \<open>
  The spec's words on the failure hooks (4.1), to compare \<open>query\<close> with: "on the path that
  produces a Timeout failure, each registered hook should be invoked (...) order must match
  registration order (...) before the failure propagates". This definition follows the
  spec, not the source.
\<close>

definition query_invoking_hooks ::
  "nat \<Rightarrow> ('e \<Rightarrow> reason + string) \<Rightarrow> ('e, 'r, 'x) Query \<Rightarrow> int option \<Rightarrow> ('e, 'x) state \<Rightarrow>
   ('r, ('e, 'x) state, 'r) run" where
  "query_invoking_hooks n toString f t s =
     (let q = query n toString f t s
      in case outcome q of
           Thrown err \<Rightarrow>
             q\<lparr>final := (final q)\<lparr>world :=
                  foldl (\<lambda>w hook. hook w) (world (final q)) (onFailureHooks (self s))\<rparr>\<rparr>
         | Returned r \<Rightarrow> q
         | Pending \<Rightarrow> q)"

subsection \<open>The namespace \<open>Condition\<close>\<close>

text \<open>
  \<^verbatim>\<open>Condition.not(condition, description?)\<close>. \<^verbatim>\<open>description || `not ${condition}`\<close>
  takes the second operand when the description is missing or the empty string.
  \<open>notMatched\<close> is the message of \<^verbatim>\<open>new ConditionNotMatchedError()\<close>.
\<close>

definition Condition_not ::
  "string \<Rightarrow> ('e, 'x) Condition \<Rightarrow> string option \<Rightarrow> ('e, 'x) Condition" where
  "Condition_not notMatched condition descr =
     lambda
       (case descr of
          None \<Rightarrow> ''not '' @ description condition
        | Some d \<Rightarrow> if d = [] then ''not '' @ description condition else d)
       (\<lambda>entity w.
          case call condition entity w of
            (Inl err, w') \<Rightarrow> (Inr (), w')
          | (Inr passed, w') \<Rightarrow> (Inl (Err (ConditionNotMatchedError notMatched)), w'))"

subsection \<open>The collection conditions\<close>

text \<open>\<^verbatim>\<open>`${texts}`\<close> for an array of strings: its elements joined by commas.\<close>

fun arrayToString :: "string list \<Rightarrow> string" where
  "arrayToString [] = []"
| "arrayToString [x] = x"
| "arrayToString (x # y # ys) = x @ '','' @ arrayToString (y # ys)"

text \<open>
  \<^verbatim>\<open>throwIfNotActual(query, predicate)\<close>. \<open>actualToString\<close> is the string form of the
  values of the type \<^verbatim>\<open>A\<close>, for \<^verbatim>\<open>`actual ${query}: ${actual}`\<close>. A failure of the
  query itself is not caught.
\<close>

definition throwIfNotActual ::
  "('a \<Rightarrow> string) \<Rightarrow> ('e, 'a, 'x) Query \<Rightarrow> ('a \<Rightarrow> bool) \<Rightarrow> ('e, unit, 'x) async" where
  "throwIfNotActual actualToString q predicate =
     (\<lambda>entity w.
        case call q entity w of
          (Inl err, w') \<Rightarrow> (Inl err, w')
        | (Inr actual, w') \<Rightarrow>
            if \<not> predicate actual
            then (Inl (Err (Error (''actual '' @ description q @ '': '' @
                     actualToString actual))), w')
            else (Inr (), w'))"

text \<open>
  \<^verbatim>\<open>condition.collection.hasTexts\<close> and \<^verbatim>\<open>hasExactTexts\<close>. The query
  \<^verbatim>\<open>query.collection.texts\<close> and the predicate \<^verbatim>\<open>predicate.equalsByContainsToArray\<close>
  are declared outside the sources and are parameters here.
\<close>

definition hasTexts ::
  "('e, string list, 'x) Query \<Rightarrow> (string list \<Rightarrow> string list \<Rightarrow> bool) \<Rightarrow> string list \<Rightarrow>
   ('e, 'x) Condition" where
  "hasTexts texts_query equalsByContainsToArray texts =
     lambda (''has texts '' @ arrayToString texts)
       (throwIfNotActual arrayToString texts_query (equalsByContainsToArray texts))"

definition hasExactTexts ::
  "('e, string list, 'x) Query \<Rightarrow> (string list \<Rightarrow> string list \<Rightarrow> bool) \<Rightarrow> string list \<Rightarrow>
   ('e, 'x) Condition" where
  "hasExactTexts texts_query equalsByContainsToArray texts =
     lambda (''has exact texts '' @ arrayToString texts)
       (throwIfNotActual arrayToString texts_query (equalsByContainsToArray texts))"

subsection \<open>A scenario\<close>

text \<open>
  A button located by \<open>#submit\<close>, waited for with a default timeout of one millisecond and
  one failure hook. The page keeps its own record of what was done to it; every attempt
  takes one millisecond. The entity is a string, its own string form (\<open>Inr\<close>).
\<close>

definition tick :: "string list world \<Rightarrow> string list world" where
  "tick w = w\<lparr>getTime := getTime w + 1, page := page w @ [''attempt'']\<rparr>"

definition neverVisible :: "('e, string list) Condition" where
  "neverVisible =
     \<lparr>description = ''is visible'',
      call = (\<lambda>entity w.
        (Inl (Err (ConditionNotMatchedError ''condition does not match'')), tick w))\<rparr>"

definition visibleFrom :: "int \<Rightarrow> (string, string list) Condition" where
  "visibleFrom k =
     \<lparr>description = ''is visible'',
      call = (\<lambda>entity w.
        (if k \<le> getTime (tick w) then Inr ()
         else Inl (Err (ConditionNotMatchedError ''condition does not match'')), tick w))\<rparr>"

definition snapshot :: "string list OnFailureHook" where
  "snapshot w = w\<lparr>page := page w @ [''snapshot'']\<rparr>"

definition submit :: "(string, string list) state" where
  "submit =
     \<lparr>self = new_Wait ''#submit'' 1 [snapshot], world = \<lparr>getTime = 0, page = []\<rparr>\<rparr>"

text \<open>
  A condition whose promise is rejected with no reason (\<^verbatim>\<open>Promise.reject()\<close>), and a
  \<^verbatim>\<open>Wait\<close> made for an element that was not found: its entity is \<^verbatim>\<open>null\<close>.
\<close>

definition rejectsUndefined :: "('e, string list) Condition" where
  "rejectsUndefined =
     \<lparr>description = ''is visible'', call = (\<lambda>entity w. (Inl Undefined, tick w))\<rparr>"

definition missing :: "(string option, string list) state" where
  "missing = \<lparr>self = new_Wait None 1 [snapshot], world = \<lparr>getTime = 0, page = []\<rparr>\<rparr>"


text \<open>A list whose items are the texts the page shows.\<close>

definition shownTexts :: "(string, string list, string list) Query" where
  "shownTexts = \<lparr>description = ''texts'', call = (\<lambda>entity w. (Inr (page w), w))\<rparr>"

subsection \<open>Auxiliary notions\<close>

text \<open>When an attempt may be followed by another one: it failed, no later than the deadline.\<close>

fun retryable :: "int \<Rightarrow> 'r attempt \<Rightarrow> bool" where
  "retryable finishTime (Failed err c) = (c \<le> finishTime)"
| "retryable finishTime (Passed r) = False"

section \<open>Properties\<close>

subsection \<open>The loop\<close>

lemma retry_journal:
  "retry n toString f tmo fin s j =
     (retry n toString f tmo fin s [])\<lparr>attempts := j @ attempts (retry n toString f tmo fin s [])\<rparr>"
proof (induction n arbitrary: s j)
  case 0
  show ?case by simp
next
  case (Suc n)
  obtain res w' where c: "call f (entity (self s)) (world s) = (res, w')"
    by (cases "call f (entity (self s)) (world s)")
  show ?case
  proof (cases res)
    case (Inr r)
    with c show ?thesis by simp
  next
    case (Inl err)
    show ?thesis
    proof (cases "fin < getTime w'")
      case True
      with c Inl show ?thesis by simp
    next
      case False
      have a: "retry n toString f tmo fin (s\<lparr>world := w'\<rparr>) (j @ [Failed err (getTime w')]) =
          (retry n toString f tmo fin (s\<lparr>world := w'\<rparr>) [])
            \<lparr>attempts := (j @ [Failed err (getTime w')]) @
               attempts (retry n toString f tmo fin (s\<lparr>world := w'\<rparr>) [])\<rparr>"
        by (rule Suc.IH)
      have b: "retry n toString f tmo fin (s\<lparr>world := w'\<rparr>) [Failed err (getTime w')] =
          (retry n toString f tmo fin (s\<lparr>world := w'\<rparr>) [])
            \<lparr>attempts := [Failed err (getTime w')] @
               attempts (retry n toString f tmo fin (s\<lparr>world := w'\<rparr>) [])\<rparr>"
        by (rule Suc.IH)
      from c Inl False show ?thesis
        by (simp add: a b)
    qed
  qed
qed

lemma retry_Suc:
  "retry (Suc n) toString f tmo fin s [] =
     (case call f (entity (self s)) (world s) of
        (Inr r, w') \<Rightarrow>
          \<lparr>outcome = Returned r, final = s\<lparr>world := w'\<rparr>, attempts = [Passed r]\<rparr>
      | (Inl err, w') \<Rightarrow>
          if fin < getTime w'
          then \<lparr>outcome = Thrown
        (throwTimeoutError tmo (toString (entity (self s))) (description f) err),
                 final = s\<lparr>world := w'\<rparr>,
                 attempts = [Failed err (getTime w')]\<rparr>
          else (retry n toString f tmo fin (s\<lparr>world := w'\<rparr>) [])
                 \<lparr>attempts := Failed err (getTime w') #
                    attempts (retry n toString f tmo fin (s\<lparr>world := w'\<rparr>) [])\<rparr>)"
  by (simp add: retry_journal [of n toString f tmo fin _ "[Failed _ _]"]
      split: prod.splits sum.splits)

lemma retry_cases:
  "(\<exists>r pre. outcome (retry n toString f tmo fin s []) = Returned r \<and>
      attempts (retry n toString f tmo fin s []) = pre @ [Passed r] \<and>
      length pre < n \<and> list_all (retryable fin) pre) \<or>
   (\<exists>err c pre. outcome (retry n toString f tmo fin s []) = Thrown
        (throwTimeoutError tmo (toString (entity (self s))) (description f) err) \<and>
      attempts (retry n toString f tmo fin s []) = pre @ [Failed err c] \<and> fin < c \<and>
      length pre < n \<and> list_all (retryable fin) pre) \<or>
   (outcome (retry n toString f tmo fin s []) = Pending \<and>
      length (attempts (retry n toString f tmo fin s [])) = n \<and>
      list_all (retryable fin) (attempts (retry n toString f tmo fin s [])))"
proof (induction n arbitrary: s)
  case 0
  show ?case by simp
next
  case (Suc n)
  obtain res w' where c: "call f (entity (self s)) (world s) = (res, w')"
    by (cases "call f (entity (self s)) (world s)")
  show ?case
  proof (cases res)
    case (Inr r)
    with c show ?thesis by (simp add: retry_Suc del: retry.simps)
  next
    case (Inl err)
    show ?thesis
    proof (cases "fin < getTime w'")
      case True
      with c Inl show ?thesis by (simp add: retry_Suc del: retry.simps)
    next
      case False
      let ?R = "retry n toString f tmo fin (s\<lparr>world := w'\<rparr>) []"
      have eq: "retry (Suc n) toString f tmo fin s [] =
          ?R\<lparr>attempts := Failed err (getTime w') # attempts ?R\<rparr>"
        using c Inl False by (simp add: retry_Suc del: retry.simps)
      have ent: "entity (self (s\<lparr>world := w'\<rparr>)) = entity (self s)" by simp
      have r0: "retryable fin (Failed err (getTime w') :: 'b attempt)"
        using False by simp
      from Suc.IH [of "s\<lparr>world := w'\<rparr>"] consider
        (ret) r pre where "outcome ?R = Returned r" "attempts ?R = pre @ [Passed r]"
          "length pre < n" "list_all (retryable fin) pre"
      | (thr) e c pre where "outcome ?R = Thrown
        (throwTimeoutError tmo (toString (entity (self s))) (description f) e)"
          "attempts ?R = pre @ [Failed e c]" "fin < c"
          "length pre < n" "list_all (retryable fin) pre"
      | (pen) "outcome ?R = Pending" "length (attempts ?R) = n"
          "list_all (retryable fin) (attempts ?R)"
        unfolding ent by blast
      then show ?thesis
      proof cases
        case ret
        have "attempts (retry (Suc n) toString f tmo fin s []) =
            (Failed err (getTime w') # pre) @ [Passed r]"
          using ret by (simp add: eq del: retry.simps)
        moreover have "list_all (retryable fin) (Failed err (getTime w') # pre)"
          using ret r0 by simp
        moreover have "length (Failed err (getTime w') # pre) < Suc n"
          using ret by simp
        moreover have "outcome (retry (Suc n) toString f tmo fin s []) = Returned r"
          using ret by (simp add: eq del: retry.simps)
        ultimately show ?thesis by blast
      next
        case thr
        have "attempts (retry (Suc n) toString f tmo fin s []) =
            (Failed err (getTime w') # pre) @ [Failed e c]"
          using thr by (simp add: eq del: retry.simps)
        moreover have "list_all (retryable fin) (Failed err (getTime w') # pre)"
          using thr r0 by simp
        moreover have "length (Failed err (getTime w') # pre) < Suc n"
          using thr by simp
        moreover have "outcome (retry (Suc n) toString f tmo fin s []) = Thrown
        (throwTimeoutError tmo (toString (entity (self s))) (description f) e)"
          using thr by (simp add: eq del: retry.simps)
        moreover note \<open>fin < c\<close>
        ultimately show ?thesis by blast
      next
        case pen
        then show ?thesis using r0 by (simp add: eq del: retry.simps)
      qed
    qed
  qed
qed

lemma retry_run:
  obtains
    (Returned) r pre where
      "outcome (retry n toString f tmo fin s []) = Returned r"
      "attempts (retry n toString f tmo fin s []) = pre @ [Passed r]"
      "length pre < n" "list_all (retryable fin) pre"
  | (Thrown) err c pre where
      "outcome (retry n toString f tmo fin s []) = Thrown
        (throwTimeoutError tmo (toString (entity (self s))) (description f) err)"
      "attempts (retry n toString f tmo fin s []) = pre @ [Failed err c]" "fin < c"
      "length pre < n" "list_all (retryable fin) pre"
  | (Pending) 
      "outcome (retry n toString f tmo fin s []) = Pending"
      "length (attempts (retry n toString f tmo fin s [])) = n"
      "list_all (retryable fin) (attempts (retry n toString f tmo fin s []))"
  using retry_cases [of n toString f tmo fin s] by blast

lemma retryable_nth:
  "list_all (retryable fin) pre \<Longrightarrow> i < length pre \<Longrightarrow> \<exists>err c. pre ! i = Failed err c \<and> c \<le> fin"
  by (cases "pre ! i") (auto simp: list_all_length)

lemma retry_first:
  "attempts (retry (Suc n) toString f tmo fin s []) \<noteq> [] \<and>
   hd (attempts (retry (Suc n) toString f tmo fin s [])) =
     (case call f (entity (self s)) (world s) of
        (Inr r, w') \<Rightarrow> Passed r
      | (Inl err, w') \<Rightarrow> Failed err (getTime w'))"
  by (simp add: retry_Suc del: retry.simps split: prod.splits sum.splits)

lemma retry_Passed_last:
  assumes "i < length (attempts (retry n toString f tmo fin s []))"
    and "attempts (retry n toString f tmo fin s []) ! i = Passed r"
  shows "outcome (retry n toString f tmo fin s []) = Returned r \<and>
    length (attempts (retry n toString f tmo fin s [])) = Suc i"
proof (cases rule: retry_run [of n toString f tmo fin s])
  case (Returned r' pre)
  have "\<not> i < length pre"
    using retryable_nth [OF Returned(4), of i] assms(2) Returned(2) by (auto simp: nth_append)
  with assms Returned show ?thesis by (auto simp: nth_append)
next
  case (Thrown err c pre)
  have "\<not> i < length pre"
    using retryable_nth [OF Thrown(5), of i] assms(2) Thrown(2) by (auto simp: nth_append)
  with assms Thrown show ?thesis by (auto simp: nth_append)
next
  case Pending
  with retryable_nth [OF Pending(3), of i] assms show ?thesis by auto
qed

lemma retry_Returned_last:
  assumes "outcome (retry n toString f tmo fin s []) = Returned r"
  shows "attempts (retry n toString f tmo fin s []) \<noteq> [] \<and>
    last (attempts (retry n toString f tmo fin s [])) = Passed r"
  using assms by (cases rule: retry_run [of n toString f tmo fin s]) auto

lemma retry_Failed_nth:
  assumes "i < length (attempts (retry n toString f tmo fin s []))"
    and "attempts (retry n toString f tmo fin s []) ! i = Failed err c"
  shows "(c \<le> fin \<longrightarrow>
            Suc i < length (attempts (retry n toString f tmo fin s [])) \<or>
            outcome (retry n toString f tmo fin s []) = Pending \<and> Suc i = n) \<and>
         (fin < c \<longrightarrow>
            length (attempts (retry n toString f tmo fin s [])) = Suc i \<and>
            outcome (retry n toString f tmo fin s []) = Thrown
        (throwTimeoutError tmo (toString (entity (self s))) (description f) err))"
proof (cases rule: retry_run [of n toString f tmo fin s])
  case (Returned r pre)
  have i: "i < length pre"
    using assms Returned(2) by (cases "i = length pre") (auto simp: nth_append)
  with retryable_nth [OF Returned(4) i] assms(2) Returned(2) show ?thesis
    by (auto simp: nth_append)
next
  case (Thrown err' c' pre)
  show ?thesis
  proof (cases "i < length pre")
    case True
    with retryable_nth [OF Thrown(5) True] assms(2) Thrown(2) show ?thesis
      by (auto simp: nth_append)
  next
    case False
    with assms Thrown(2) have "i = length pre" by simp
    with assms(2) Thrown show ?thesis by (auto simp: nth_append)
  qed
next
  case Pending
  with retryable_nth [OF Pending(3) assms(1)] assms show ?thesis
    by auto
qed

lemma retry_Thrown_last:
  assumes "outcome (retry n toString f tmo fin s []) = Thrown e"
  shows "\<exists>err c. attempts (retry n toString f tmo fin s []) \<noteq> [] \<and>
    last (attempts (retry n toString f tmo fin s [])) = Failed err c \<and> fin < c \<and>
    e = throwTimeoutError tmo (toString (entity (self s))) (description f) err"
  using assms by (cases rule: retry_run [of n toString f tmo fin s]) auto

lemma query_retry:
  "query n toString f t s =
     retry n toString f (case t of None \<Rightarrow> timeout (self s) | Some t' \<Rightarrow> t')
       (getTime (world s) + (case t of None \<Rightarrow> timeout (self s) | Some t' \<Rightarrow> t')) s []"
  by (simp add: query_def Let_def)

text \<open>
  Fuel only bounds what is observed: a run that has settled is the same run under any
  larger bound.
\<close>

lemma retry_more_fuel:
  "outcome (retry n toString f tmo fin s j) \<noteq> Pending \<Longrightarrow>
   retry (n + k) toString f tmo fin s j = retry n toString f tmo fin s j"
  by (induction n arbitrary: s j) (auto split: prod.splits sum.splits)

lemma query_more_fuel:
  "outcome (query n toString f t s) \<noteq> Pending \<Longrightarrow>
   query (n + k) toString f t s = query n toString f t s"
  by (simp add: query_def Let_def retry_more_fuel)

text \<open>The object is not touched by the loop, and the world is what the attempts made of it.\<close>

lemma retry_self: "self (final (retry n toString f tmo fin s j)) = self s"
  by (induction n arbitrary: s j) (auto split: prod.splits sum.splits)

lemma query_self: "self (final (query n toString f t s)) = self s"
  by (simp add: query_def Let_def retry_self)

lemma invoke_self: "self (invoke toString c s) = self s"
  by (cases "(toString, c, s)" rule: invoke.cases)
    (simp_all add: until_def command_def Let_def query_self)

lemma invokeAll_self: "self (invokeAll toString cs s) = self s"
  by (induction cs arbitrary: s) (simp_all add: invoke_self)

lemma retry_world:
  "world (final (retry n toString f tmo fin s [])) =
     ((\<lambda>w. snd (call f (entity (self s)) w)) ^^
        length (attempts (retry n toString f tmo fin s []))) (world s)"
proof (induction n arbitrary: s)
  case 0
  show ?case by simp
next
  case (Suc n)
  obtain res w' where c: "call f (entity (self s)) (world s) = (res, w')"
    by (cases "call f (entity (self s)) (world s)")
  show ?case
  proof (cases res)
    case (Inr r)
    with c show ?thesis by (simp add: retry_Suc del: retry.simps)
  next
    case (Inl err)
    show ?thesis
    proof (cases "fin < getTime w'")
      case True
      with c Inl show ?thesis by (simp add: retry_Suc del: retry.simps)
    next
      case False
      define step where "step = (\<lambda>w. snd (call f (entity (self s)) w))"
      define k where "k = length (attempts (retry n toString f tmo fin (s\<lparr>world := w'\<rparr>) []))"
      have w': "w' = step (world s)"
        using c by (simp add: step_def)
      have "world (final (retry n toString f tmo fin (s\<lparr>world := w'\<rparr>) [])) = (step ^^ k) w'"
        using Suc.IH [of "s\<lparr>world := w'\<rparr>"] by (simp add: step_def k_def)
      also have "\<dots> = (step ^^ Suc k) (world s)"
        unfolding w' by (simp add: funpow_swap1)
      finally show ?thesis
        using c Inl False by (simp add: retry_Suc step_def k_def del: retry.simps funpow.simps)
    qed
  qed
qed

lemma retry_same_state:
  assumes "entity (self s1) = entity (self s2)" and "world s1 = world s2"
  shows "outcome (retry n toString f tmo fin s1 j) = outcome (retry n toString f tmo fin s2 j) \<and>
    attempts (retry n toString f tmo fin s1 j) = attempts (retry n toString f tmo fin s2 j) \<and>
    world (final (retry n toString f tmo fin s1 j)) =
      world (final (retry n toString f tmo fin s2 j))"
  using assms
proof (induction n arbitrary: s1 s2 j)
  case 0
  then show ?case by simp
next
  case (Suc n)
  obtain res w' where c: "call f (entity (self s2)) (world s2) = (res, w')"
    by (cases "call f (entity (self s2)) (world s2)")
  have "entity (self (s1\<lparr>world := w'\<rparr>)) = entity (self (s2\<lparr>world := w'\<rparr>))"
    and "world (s1\<lparr>world := w'\<rparr>) = world (s2\<lparr>world := w'\<rparr>)"
    using Suc.prems by simp_all
  from Suc.IH [OF this] c Suc.prems show ?case
    by (cases res) simp_all
qed

lemma retry_same_call:
  assumes "call f = call g"
  shows "attempts (retry n toString f tmo fin s j) = attempts (retry n toString g tmo fin s j) \<and>
    final (retry n toString f tmo fin s j) = final (retry n toString g tmo fin s j) \<and>
    (case outcome (retry n toString f tmo fin s j) of
       Returned res \<Rightarrow> Returned True | Thrown err \<Rightarrow> Returned False | Pending \<Rightarrow> Pending) =
    (case outcome (retry n toString g tmo fin s j) of
       Returned res \<Rightarrow> Returned True | Thrown err \<Rightarrow> Returned False | Pending \<Rightarrow> Pending)"
  by (induction n arbitrary: s j) (simp_all add: assms split: prod.splits sum.splits)

subsection \<open>The catch block\<close>

lemma errorMessage_raised: "errorMessage err = Inl x \<Longrightarrow> \<exists>m. x = Err (TypeError m)"
  by (cases err) auto

lemma errorMessage_readable:
  "(\<exists>m. errorMessage err = Inr m) = (err \<noteq> Undefined \<and> err \<noteq> Null)"
  by (cases err) auto


lemma throwTimeoutError_readable:
  "errorMessage err = Inr cause \<Longrightarrow>
   throwTimeoutError tmo (Inr es) d err = Err (TimeoutError (timeoutMessage tmo es d cause))"
  by (simp add: throwTimeoutError_def)

text \<open>Every entry of the journal is what an invocation of the function settled with.\<close>

lemma retry_called:
  "a \<in> set (attempts (retry n toString f tmo fin s [])) \<Longrightarrow>
   \<exists>w w'. (\<exists>r. call f (entity (self s)) w = (Inr r, w') \<and> a = Passed r) \<or>
     (\<exists>err. call f (entity (self s)) w = (Inl err, w') \<and> a = Failed err (getTime w'))"
proof (induction n arbitrary: s)
  case 0
  then show ?case by simp
next
  case (Suc n)
  obtain res w' where c: "call f (entity (self s)) (world s) = (res, w')"
    by (cases "call f (entity (self s)) (world s)")
  show ?case
  proof (cases res)
    case (Inr r)
    with c Suc.prems show ?thesis
      by (auto simp add: retry_Suc simp del: retry.simps)
  next
    case (Inl err)
    show ?thesis
    proof (cases "fin < getTime w'")
      case True
      with c Inl Suc.prems show ?thesis
        by (auto simp add: retry_Suc simp del: retry.simps)
    next
      case False
      with c Inl Suc.prems have
        "a = Failed err (getTime w') \<or>
         a \<in> set (attempts (retry n toString f tmo fin (s\<lparr>world := w'\<rparr>) []))"
        by (simp add: retry_Suc del: retry.simps)
      then show ?thesis
      proof
        assume "a = Failed err (getTime w')"
        with c Inl show ?thesis by blast
      next
        assume "a \<in> set (attempts (retry n toString f tmo fin (s\<lparr>world := w'\<rparr>) []))"
        from Suc.IH [OF this] show ?thesis by simp
      qed
    qed
  qed
qed

subsection \<open>The printed timeout\<close>

text \<open>
  \<open>numberToString\<close> prints the canonical decimal numeral of its argument, and that is the
  only canonical numeral that reads as it.
\<close>

lemma digit_char:
  assumes "k < 10"
  shows "of_char (''0123456789'' ! k) = 48 + k"
    and "isDigit (''0123456789'' ! k)"
    and "(''0123456789'' ! k = CHR ''0'') = (k = 0)"
    and "''0123456789'' ! k \<noteq> CHR ''-''"
proof -
  from assms have "k = 0 \<or> k = 1 \<or> k = 2 \<or> k = 3 \<or> k = 4 \<or> k = 5 \<or> k = 6 \<or>
      k = 7 \<or> k = 8 \<or> k = 9"
    by arith
  then have "of_char (''0123456789'' ! k) = 48 + k \<and> isDigit (''0123456789'' ! k) \<and>
      (''0123456789'' ! k = CHR ''0'') = (k = 0) \<and> ''0123456789'' ! k \<noteq> CHR ''-''"
    by (elim disjE) (simp_all add: isDigit_def)
  then show "of_char (''0123456789'' ! k) = 48 + k"
    and "isDigit (''0123456789'' ! k)"
    and "(''0123456789'' ! k = CHR ''0'') = (k = 0)"
    and "''0123456789'' ! k \<noteq> CHR ''-''"
    by simp_all
qed

lemma digit_char_inverse:
  assumes "isDigit c"
  shows "of_char c - 48 < (10::nat) \<and> ''0123456789'' ! (of_char c - 48) = c"
proof -
  from assms have "c = CHR ''0'' \<or> c = CHR ''1'' \<or> c = CHR ''2'' \<or> c = CHR ''3'' \<or>
      c = CHR ''4'' \<or> c = CHR ''5'' \<or> c = CHR ''6'' \<or> c = CHR ''7'' \<or> c = CHR ''8'' \<or>
      c = CHR ''9''"
    by (simp add: isDigit_def)
  then show ?thesis by (elim disjE) simp_all
qed

lemma natOfDigits_snoc: "natOfDigits (ds @ [c]) = 10 * natOfDigits ds + (of_char c - 48)"
  by (simp add: natOfDigits_def)


lemma digits_shape:
  "digits n \<noteq> [] \<and> list_all isDigit (digits n) \<and> hd (digits n) \<noteq> CHR ''-'' \<and>
   (hd (digits n) = CHR ''0'') = (n = 0)"
proof (induction n rule: digits.induct)
  case (1 n)
  show ?case
  proof (cases "n < 10")
    case True
    then show ?thesis
      by (simp add: digits.simps [of n] digit_char)
  next
    case False
    have m: "n mod 10 < 10" by simp
    from False have "n div 10 \<noteq> 0" by simp
    with False 1 m show ?thesis
      by (simp add: digits.simps [of n] digit_char)
  qed
qed

lemma digits_zero: "(digits n = ''0'') = (n = 0)"
proof
  assume "digits n = ''0''"
  then have "hd (digits n) = CHR ''0''" by simp
  then show "n = 0" by (simp add: digits_shape)
next
  assume "n = 0"
  then show "digits n = ''0''" by (simp add: digits.simps [of 0])
qed



lemma digits_natOfDigits:
  "canonicalDigits ds \<Longrightarrow> digits (natOfDigits ds) = ds"
proof (induction ds rule: rev_induct)
  case Nil
  then show ?case by (simp add: canonicalDigits_def)
next
  case (snoc c xs)
  from snoc.prems have c: "isDigit c" and xs: "list_all isDigit xs"
    by (simp_all add: canonicalDigits_def)
  note d = digit_char_inverse [OF c]
  show ?case
  proof (cases "xs = []")
    case True
    with d show ?thesis
      by (simp add: natOfDigits_def digits.simps [of "of_char c - 48"])
  next
    case False
    with snoc.prems have h: "hd xs \<noteq> CHR ''0''"
      by (cases xs) (auto simp add: canonicalDigits_def)
    with False xs have cx: "canonicalDigits xs"
      by (simp add: canonicalDigits_def)
    from snoc.IH [OF cx] have ih: "digits (natOfDigits xs) = xs" .
    have "natOfDigits xs \<noteq> 0"
      using digits_shape [of "natOfDigits xs"] h by (simp add: ih)
    then have big: "\<not> 10 * natOfDigits xs + (of_char c - 48) < 10" by simp
    have dv: "(10 * natOfDigits xs + (of_char c - 48)) div 10 = natOfDigits xs"
      and md: "(10 * natOfDigits xs + (of_char c - 48)) mod 10 = of_char c - 48"
      using d by simp_all
    show ?thesis
      unfolding natOfDigits_snoc
      by (subst digits.simps) (simp add: big dv md ih d)
  qed
qed

lemma numberToString_numberOfString:
  "canonicalNumeral txt \<Longrightarrow> numberToString (numberOfString txt) = txt"
proof (cases "txt")
  case Nil
  assume "canonicalNumeral txt"
  with Nil show ?thesis by (simp add: canonicalNumeral_def)
next
  case (Cons c ds)
  assume cn: "canonicalNumeral txt"
  show ?thesis
  proof (cases "c = CHR ''-''")
    case True
    with cn Cons have cd: "canonicalDigits ds" and nz: "ds \<noteq> ''0''"
      by (simp_all add: canonicalNumeral_def)
    from digits_natOfDigits [OF cd] nz have "natOfDigits ds \<noteq> 0"
      using digits_zero [of "natOfDigits ds"] by simp
    with True Cons digits_natOfDigits [OF cd] show ?thesis
      by (simp add: numberOfString_def numberToString_def)
  next
    case False
    with cn Cons have cd: "canonicalDigits (c # ds)"
      by (simp add: canonicalNumeral_def)
    from False Cons digits_natOfDigits [OF cd] show ?thesis
      by (simp add: numberOfString_def numberToString_def)
  qed
qed

subsection \<open>The message of the timeout\<close>


subsection \<open>A run of the scenario\<close>

lemma query_never:
  "query (Suc (Suc (Suc 0))) Inr neverVisible None submit =
     \<lparr>outcome = Thrown (Err (TimeoutError
         (timeoutMessage 1 ''#submit'' ''is visible'' ''condition does not match''))),
      final = \<lparr>self = new_Wait ''#submit'' 1 [snapshot],
         world = \<lparr>getTime = 2, page = [''attempt'', ''attempt'']\<rparr>\<rparr>,
      attempts = [Failed (Err (ConditionNotMatchedError ''condition does not match'')) 1,
        Failed (Err (ConditionNotMatchedError ''condition does not match'')) 2]\<rparr>"
  by (simp add: query_def submit_def neverVisible_def new_Wait_def tick_def
      throwTimeoutError_def)

lemma query_visible:
  "query (Suc (Suc (Suc 0))) Inr (visibleFrom 2) (Some 5) submit =
     \<lparr>outcome = Returned (),
      final = \<lparr>self = new_Wait ''#submit'' 1 [snapshot],
         world = \<lparr>getTime = 2, page = [''attempt'', ''attempt'']\<rparr>\<rparr>,
      attempts = [Failed (Err (ConditionNotMatchedError ''condition does not match'')) 1, Passed ()]\<rparr>"
  by (simp add: query_def submit_def visibleFrom_def new_Wait_def tick_def)

text \<open>
  Away from those two reads the block does what it is written for: when the string form of
  the entity can be read and the function is never rejected with \<^verbatim>\<open>undefined\<close> or
  \<^verbatim>\<open>null\<close>, a query or a command that throws, throws a \<^verbatim>\<open>TimeoutError\<close>, and the
  command throws what the query throws.
\<close>

lemma query_throws_TimeoutError_when_readable:
  assumes es: "toString (entity (self s)) = Inr es"
    and f: "\<And>w err w'. call f (entity (self s)) w = (Inl err, w') \<Longrightarrow>
      err \<noteq> Undefined \<and> err \<noteq> Null"
    and thrown: "outcome (query n toString f t s) = Thrown x"
  shows "\<exists>msg. x = Err (TimeoutError msg)"
proof -
  from retry_Thrown_last [OF thrown [unfolded query_retry]] obtain err c where
    ne: "attempts (query n toString f t s) \<noteq> []"
    and l: "last (attempts (query n toString f t s)) = Failed err c"
    and x: "x = throwTimeoutError (case t of None \<Rightarrow> timeout (self s) | Some t' \<Rightarrow> t')
      (toString (entity (self s))) (description f) err"
    unfolding query_retry by blast
  from ne l have "Failed err c \<in> set (attempts (query n toString f t s))"
    using last_in_set by metis
  from retry_called [OF this [unfolded query_retry]] obtain w w' where
    "call f (entity (self s)) w = (Inl err, w')"
    by auto
  from f [OF this] obtain m where "errorMessage err = Inr m"
    using errorMessage_readable [of err] by blast
  with x es show ?thesis
    by (simp add: throwTimeoutError_readable)
qed

lemma command_throws_what_query_throws:
  "(outcome (command n toString g t s) = Thrown x) =
   (outcome (query n toString g t s) = Thrown x)"
  by (cases "outcome (query n toString g t s)") (simp_all add: command_def Let_def)


section \<open>The claims\<close>

text \<open>
  Claim C1. Whatever the function and the timeout (zero and negative ones included),
  \<^verbatim>\<open>Wait.query\<close> invokes the function at least once: as soon as one attempt is
  observed, the journal is not empty and its first entry is what the function settled with
  on the held entity in the world of the call. An attempt that passes is the last one, and
  the query returns its result; and a query that returns, returns the result of its last
  attempt.
\<close>

theorem query_attempts_once_and_returns_first_success:
  "(0 < n \<longrightarrow>
      attempts (query n toString f t s) \<noteq> [] \<and>
      hd (attempts (query n toString f t s)) =
        (case call f (entity (self s)) (world s) of
           (Inr r, w') \<Rightarrow> Passed r
         | (Inl err, w') \<Rightarrow> Failed err (getTime w'))) \<and>
   (\<forall>i r. i < length (attempts (query n toString f t s)) \<and>
      attempts (query n toString f t s) ! i = Passed r \<longrightarrow>
      outcome (query n toString f t s) = Returned r \<and>
      length (attempts (query n toString f t s)) = Suc i) \<and>
   (\<forall>r. outcome (query n toString f t s) = Returned r \<longrightarrow>
      attempts (query n toString f t s) \<noteq> [] \<and>
      last (attempts (query n toString f t s)) = Passed r)"
proof (intro conjI impI allI)
  assume "0 < n"
  then obtain m where n: "n = Suc m" by (cases n) auto
  show "attempts (query n toString f t s) \<noteq> []"
    unfolding query_retry n by (rule retry_first [THEN conjunct1])
  show "hd (attempts (query n toString f t s)) =
        (case call f (entity (self s)) (world s) of
           (Inr r, w') \<Rightarrow> Passed r
         | (Inl err, w') \<Rightarrow> Failed err (getTime w'))"
    unfolding query_retry n by (rule retry_first [THEN conjunct2])
next
  fix i r
  assume a: "i < length (attempts (query n toString f t s)) \<and>
      attempts (query n toString f t s) ! i = Passed r"
  note b = retry_Passed_last [OF a [unfolded query_retry, THEN conjunct1]
      a [unfolded query_retry, THEN conjunct2]]
  show "outcome (query n toString f t s) = Returned r"
    unfolding query_retry by (rule b [THEN conjunct1])
  show "length (attempts (query n toString f t s)) = Suc i"
    unfolding query_retry by (rule b [THEN conjunct2])
next
  fix r
  assume a: "outcome (query n toString f t s) = Returned r"
  note b = retry_Returned_last [OF a [unfolded query_retry]]
  show "attempts (query n toString f t s) \<noteq> []"
    unfolding query_retry by (rule b [THEN conjunct1])
  show "last (attempts (query n toString f t s)) = Passed r"
    unfolding query_retry by (rule b [THEN conjunct2])
qed

theorem query_attempts_once_witness:
  "(0::nat) < Suc (Suc (Suc 0)) \<and>
   attempts (query (Suc (Suc (Suc 0))) Inr (visibleFrom 1) (Some (- 5)) submit) \<noteq> [] \<and>
   attempts (query (Suc (Suc (Suc 0))) Inr (visibleFrom 1) (Some (- 5)) submit) ! 0 = Passed () \<and>
   hd (attempts (query (Suc (Suc (Suc 0))) Inr (visibleFrom 1) (Some (- 5)) submit)) = Passed () \<and>
   outcome (query (Suc (Suc (Suc 0))) Inr (visibleFrom 1) (Some (- 5)) submit) = Returned () \<and>
   length (attempts (query (Suc (Suc (Suc 0))) Inr (visibleFrom 1) (Some (- 5)) submit)) = Suc 0 \<and>
   page (world (final (query (Suc (Suc (Suc 0))) Inr (visibleFrom 1) (Some (- 5)) submit))) =
     [''attempt'']"
  using query_attempts_once_and_returns_first_success
    [of "Suc (Suc (Suc 0))" Inr "visibleFrom 1" "Some (- 5)" submit]
  by (simp add: query_def submit_def visibleFrom_def new_Wait_def tick_def)

text \<open>
  Claim C2. The deadline is the clock value at the call plus the timeout, computed once. A
  failed attempt after which the clock is at most the deadline (equal to it included) is
  followed by another attempt, unless the observation ends there with the loop still
  running; a failed attempt after which the clock is past the deadline is the last one:
  the query stops and throws, a \<^verbatim>\<open>TimeoutError\<close> whenever the string form of the
  entity and the message of the error can be read. A query that throws has a last attempt
  that failed with the clock past the deadline.
\<close>

theorem query_deadline_strict:
  "(\<forall>i err c. i < length (attempts (query n toString f t s)) \<and>
      attempts (query n toString f t s) ! i = Failed err c \<longrightarrow>
      (c \<le> getTime (world s) + (case t of None \<Rightarrow> timeout (self s) | Some t' \<Rightarrow> t') \<longrightarrow>
         Suc i < length (attempts (query n toString f t s)) \<or>
         outcome (query n toString f t s) = Pending \<and> Suc i = n) \<and>
      (getTime (world s) + (case t of None \<Rightarrow> timeout (self s) | Some t' \<Rightarrow> t') < c \<longrightarrow>
         length (attempts (query n toString f t s)) = Suc i \<and>
         (\<exists>x. outcome (query n toString f t s) = Thrown x) \<and>
         ((\<exists>es. toString (entity (self s)) = Inr es) \<and> (\<exists>m. errorMessage err = Inr m) \<longrightarrow>
            (\<exists>msg. outcome (query n toString f t s) = Thrown (Err (TimeoutError msg)))))) \<and>
   (\<forall>e. outcome (query n toString f t s) = Thrown e \<longrightarrow>
      (\<exists>err c. attempts (query n toString f t s) \<noteq> [] \<and>
         last (attempts (query n toString f t s)) = Failed err c \<and>
         getTime (world s) + (case t of None \<Rightarrow> timeout (self s) | Some t' \<Rightarrow> t') < c))"
proof (rule conjI)
  show "\<forall>i err c. i < length (attempts (query n toString f t s)) \<and>
      attempts (query n toString f t s) ! i = Failed err c \<longrightarrow>
      (c \<le> getTime (world s) + (case t of None \<Rightarrow> timeout (self s) | Some t' \<Rightarrow> t') \<longrightarrow>
         Suc i < length (attempts (query n toString f t s)) \<or>
         outcome (query n toString f t s) = Pending \<and> Suc i = n) \<and>
      (getTime (world s) + (case t of None \<Rightarrow> timeout (self s) | Some t' \<Rightarrow> t') < c \<longrightarrow>
         length (attempts (query n toString f t s)) = Suc i \<and>
         (\<exists>x. outcome (query n toString f t s) = Thrown x) \<and>
         ((\<exists>es. toString (entity (self s)) = Inr es) \<and> (\<exists>m. errorMessage err = Inr m) \<longrightarrow>
            (\<exists>msg. outcome (query n toString f t s) = Thrown (Err (TimeoutError msg)))))"
  proof (intro allI, rule impI)
    fix i err c
    assume a: "i < length (attempts (query n toString f t s)) \<and>
      attempts (query n toString f t s) ! i = Failed err c"
    from retry_Failed_nth [OF a [unfolded query_retry, THEN conjunct1]
      a [unfolded query_retry, THEN conjunct2]]
    show "(c \<le> getTime (world s) + (case t of None \<Rightarrow> timeout (self s) | Some t' \<Rightarrow> t') \<longrightarrow>
         Suc i < length (attempts (query n toString f t s)) \<or>
         outcome (query n toString f t s) = Pending \<and> Suc i = n) \<and>
      (getTime (world s) + (case t of None \<Rightarrow> timeout (self s) | Some t' \<Rightarrow> t') < c \<longrightarrow>
         length (attempts (query n toString f t s)) = Suc i \<and>
         (\<exists>x. outcome (query n toString f t s) = Thrown x) \<and>
         ((\<exists>es. toString (entity (self s)) = Inr es) \<and> (\<exists>m. errorMessage err = Inr m) \<longrightarrow>
            (\<exists>msg. outcome (query n toString f t s) = Thrown (Err (TimeoutError msg)))))"
      unfolding query_retry by (auto simp add: throwTimeoutError_readable)
  qed
next
  show "\<forall>e. outcome (query n toString f t s) = Thrown e \<longrightarrow>
      (\<exists>err c. attempts (query n toString f t s) \<noteq> [] \<and>
         last (attempts (query n toString f t s)) = Failed err c \<and>
         getTime (world s) + (case t of None \<Rightarrow> timeout (self s) | Some t' \<Rightarrow> t') < c)"
  proof (intro allI, rule impI)
    fix e
    assume a: "outcome (query n toString f t s) = Thrown e"
    from retry_Thrown_last [OF a [unfolded query_retry]]
    show "\<exists>err c. attempts (query n toString f t s) \<noteq> [] \<and>
         last (attempts (query n toString f t s)) = Failed err c \<and>
         getTime (world s) + (case t of None \<Rightarrow> timeout (self s) | Some t' \<Rightarrow> t') < c"
      unfolding query_retry by blast
  qed
qed

theorem query_deadline_strict_witness:
  "attempts (query (Suc (Suc (Suc 0))) Inr neverVisible None submit) ! 0 =
     Failed (Err (ConditionNotMatchedError ''condition does not match'')) 1 \<and>
   (1::int) \<le> getTime (world submit) + timeout (self submit) \<and>
   Suc 0 < length (attempts (query (Suc (Suc (Suc 0))) Inr neverVisible None submit)) \<and>
   attempts (query (Suc (Suc (Suc 0))) Inr neverVisible None submit) ! 1 =
     Failed (Err (ConditionNotMatchedError ''condition does not match'')) 2 \<and>
   getTime (world submit) + timeout (self submit) < (2::int) \<and>
   length (attempts (query (Suc (Suc (Suc 0))) Inr neverVisible None submit)) = 2 \<and>
   outcome (query (Suc (Suc (Suc 0))) Inr neverVisible None submit) =
     Thrown (Err (TimeoutError
       (timeoutMessage 1 ''#submit'' ''is visible'' ''condition does not match'')))"
  using query_deadline_strict [of "Suc (Suc (Suc 0))" Inr neverVisible None submit]
  by (simp add: query_never) (simp add: submit_def new_Wait_def)

text \<open>
  Claim C3. \<^verbatim>\<open>Wait.until\<close> never rejects: it resolves to true exactly when the query
  on the same arguments returns, to false exactly when that query fails, and is still
  running exactly when that query is.
\<close>

theorem until_never_rejects:
  "(\<forall>e. outcome (until n toString f t s) \<noteq> Thrown e) \<and>
   (outcome (until n toString f t s) = Returned True) =
     (\<exists>r. outcome (query n toString f t s) = Returned r) \<and>
   (outcome (until n toString f t s) = Returned False) =
     (\<exists>e. outcome (query n toString f t s) = Thrown e) \<and>
   (outcome (until n toString f t s) = Pending) =
     (outcome (query n toString f t s) = Pending)"
  by (cases "outcome (query n toString f t s)") (simp_all add: until_def Let_def)

theorem until_never_rejects_witness:
  "outcome (query (Suc (Suc (Suc 0))) Inr neverVisible None submit) =
     Thrown (Err (TimeoutError
       (timeoutMessage 1 ''#submit'' ''is visible'' ''condition does not match''))) \<and>
   outcome (until (Suc (Suc (Suc 0))) Inr neverVisible None submit) = Returned False \<and>
   outcome (query (Suc (Suc (Suc 0))) Inr (visibleFrom 2) (Some 5) submit) = Returned () \<and>
   outcome (until (Suc (Suc (Suc 0))) Inr (visibleFrom 2) (Some 5) submit) = Returned True"
  using until_never_rejects [of "Suc (Suc (Suc 0))" Inr neverVisible None submit]
    until_never_rejects [of "Suc (Suc (Suc 0))" Inr "visibleFrom 2" "Some 5" submit]
  by (simp add: query_never query_visible)

text \<open>
  Claim C4 says that a \<^verbatim>\<open>TimeoutError\<close> is the only failure that leaves
  \<^verbatim>\<open>Wait.query\<close> and \<^verbatim>\<open>Wait.command\<close>. The \<^verbatim>\<open>catch\<close> block is written to
  turn whatever was caught into one, but it reads \<^verbatim>\<open>error.message\<close> and calls
  \<^verbatim>\<open>this.entity.toString()\<close> unguarded. A condition whose promise is rejected with
  \<^verbatim>\<open>undefined\<close>, once the deadline has passed, makes both methods reject with the
  \<^verbatim>\<open>TypeError\<close> of that read, and so does any failing condition on a \<^verbatim>\<open>Wait\<close>
  whose entity is \<^verbatim>\<open>null\<close>.
\<close>

theorem query_rejects_with_TypeError:
  "attempts (query (Suc 0) Inr rejectsUndefined (Some 0) submit) = [Failed Undefined 1] \<and>
   outcome (query (Suc 0) Inr rejectsUndefined (Some 0) submit) =
     Thrown (Err (TypeError (''Cannot read properties of undefined (reading '' @ [CHR 0x27] @
       ''message'' @ [CHR 0x27] @ '')''))) \<and>
   outcome (command (Suc 0) Inr rejectsUndefined (Some 0) submit) =
     Thrown (Err (TypeError (''Cannot read properties of undefined (reading '' @ [CHR 0x27] @
       ''message'' @ [CHR 0x27] @ '')''))) \<and>
   attempts (query (Suc 0) (toStringOf id) neverVisible (Some 0) missing) =
     [Failed (Err (ConditionNotMatchedError ''condition does not match'')) 1] \<and>
   outcome (query (Suc 0) (toStringOf id) neverVisible (Some 0) missing) =
     Thrown (Err (TypeError (''Cannot read properties of null (reading '' @ [CHR 0x27] @
       ''toString'' @ [CHR 0x27] @ '')''))) \<and>
   outcome (command (Suc 0) (toStringOf id) neverVisible (Some 0) missing) =
     Thrown (Err (TypeError (''Cannot read properties of null (reading '' @ [CHR 0x27] @
       ''toString'' @ [CHR 0x27] @ '')'')))"
  by (simp add: command_def query_def submit_def missing_def rejectsUndefined_def
      neverVisible_def new_Wait_def tick_def throwTimeoutError_def)



text \<open>
  Claim C6, as stated, is that on the path to a \<^verbatim>\<open>TimeoutError\<close> the registered hooks
  are run, in order, before the failure propagates: that \<open>query\<close> is
  \<open>query_invoking_hooks\<close>. It is not: in the scenario the query times out, one hook is
  registered, and the page has no record of a snapshot.
\<close>

theorem query_invokes_hooks_counterexample:
  "outcome (query (Suc (Suc (Suc 0))) Inr neverVisible None submit) =
     Thrown (Err (TimeoutError
       (timeoutMessage 1 ''#submit'' ''is visible'' ''condition does not match''))) \<and>
   onFailureHooks (self submit) = [snapshot] \<and>
   page (world (final (query (Suc (Suc (Suc 0))) Inr neverVisible None submit))) =
     [''attempt'', ''attempt''] \<and>
   page (world (final (query_invoking_hooks (Suc (Suc (Suc 0))) Inr neverVisible None submit))) =
     [''attempt'', ''attempt'', ''snapshot''] \<and>
   query (Suc (Suc (Suc 0))) Inr neverVisible None submit \<noteq>
     query_invoking_hooks (Suc (Suc (Suc 0))) Inr neverVisible None submit"
  by (simp add: query_invoking_hooks_def query_never)
    (simp add: submit_def new_Wait_def snapshot_def)

text \<open>
  Claim C6, amended. \<^verbatim>\<open>Wait.query\<close> invokes no failure hook, on any path: the hooks
  given to the constructor are only stored. The outcome, the attempts and the world a
  query leaves are the same whatever hooks are registered, and that world is the one the
  attempts produced, each from the world the one before left.
\<close>

theorem query_invokes_no_hook:
  "outcome (query n toString f t (s\<lparr>self := (self s)\<lparr>onFailureHooks := hs\<rparr>\<rparr>)) =
     outcome (query n toString f t s) \<and>
   attempts (query n toString f t (s\<lparr>self := (self s)\<lparr>onFailureHooks := hs\<rparr>\<rparr>)) =
     attempts (query n toString f t s) \<and>
   world (final (query n toString f t (s\<lparr>self := (self s)\<lparr>onFailureHooks := hs\<rparr>\<rparr>))) =
     world (final (query n toString f t s)) \<and>
   world (final (query n toString f t s)) =
     ((\<lambda>w. snd (call f (entity (self s)) w)) ^^ length (attempts (query n toString f t s)))
       (world s)"
proof -
  have "entity (self (s\<lparr>self := (self s)\<lparr>onFailureHooks := hs\<rparr>\<rparr>)) = entity (self s)"
    and "world (s\<lparr>self := (self s)\<lparr>onFailureHooks := hs\<rparr>\<rparr>) = world s"
    by simp_all
  note same = retry_same_state [OF this, of n toString f
      "case t of None \<Rightarrow> timeout (self s) | Some t' \<Rightarrow> t'"
      "getTime (world s) + (case t of None \<Rightarrow> timeout (self s) | Some t' \<Rightarrow> t')" "[]"]
  have q: "query n toString f t (s\<lparr>self := (self s)\<lparr>onFailureHooks := hs\<rparr>\<rparr>) =
      retry n toString f (case t of None \<Rightarrow> timeout (self s) | Some t' \<Rightarrow> t')
        (getTime (world s) + (case t of None \<Rightarrow> timeout (self s) | Some t' \<Rightarrow> t'))
        (s\<lparr>self := (self s)\<lparr>onFailureHooks := hs\<rparr>\<rparr>) []"
    by (cases t) (simp_all add: query_def Let_def)
  show ?thesis
    unfolding q unfolding query_retry using same retry_world by blast
qed

text \<open>
  Claim C7. \<^verbatim>\<open>Condition.not(C)\<close> applied to an entity passes exactly when \<open>C\<close>
  fails, and fails with a \<^verbatim>\<open>ConditionNotMatchedError\<close> exactly when \<open>C\<close> passes;
  it leaves the world as \<open>C\<close> does. Without a description argument its description is
  \<open>not\<close>, a space and the string form of \<open>C\<close>.
\<close>

theorem Condition_not_negates:
  "(fst (call (Condition_not notMatched c d) e w) = Inr ()) = isl (fst (call c e w)) \<and>
   (fst (call (Condition_not notMatched c d) e w) = Inl (Err (ConditionNotMatchedError notMatched))) =
     (\<not> isl (fst (call c e w))) \<and>
   snd (call (Condition_not notMatched c d) e w) = snd (call c e w) \<and>
   description (Condition_not notMatched c None) = ''not '' @ description c"
  by (cases "call c e w"; cases "fst (call c e w)")
    (simp_all add: Condition_not_def lambda_def)

theorem Condition_not_negates_witness:
  "fst (call neverVisible ''#submit'' (world submit)) =
     Inl (Err (ConditionNotMatchedError ''condition does not match'')) \<and>
   fst (call (Condition_not ''condition does not match'' neverVisible None) ''#submit''
     (world submit)) = Inr () \<and>
   fst (call (visibleFrom 1) ''#submit'' (world submit)) = Inr () \<and>
   fst (call (Condition_not ''condition does not match'' (visibleFrom 1) None) ''#submit''
     (world submit)) = Inl (Err (ConditionNotMatchedError ''condition does not match'')) \<and>
   description (Condition_not ''condition does not match''
     (neverVisible :: (string, string list) Condition) None) = ''not is visible''"
  using Condition_not_negates [of "''condition does not match''" neverVisible None
      "''#submit''" "world submit"]
    Condition_not_negates [of "''condition does not match''" "visibleFrom 1" None
      "''#submit''" "world submit"]
  by (simp add: neverVisible_def visibleFrom_def submit_def tick_def)

text \<open>
  Claim C8. \<^verbatim>\<open>Condition.not(Condition.not(C))\<close> applied to an entity passes exactly
  when \<open>C\<close> passes and fails exactly when \<open>C\<close> fails (then with a
  \<^verbatim>\<open>ConditionNotMatchedError\<close>, whatever the error of \<open>C\<close>), and leaves the world as
  \<open>C\<close> does.
\<close>

theorem Condition_not_not:
  "(fst (call (Condition_not m2 (Condition_not m1 c d1) d2) e w) = Inr ()) =
     (fst (call c e w) = Inr ()) \<and>
   isl (fst (call (Condition_not m2 (Condition_not m1 c d1) d2) e w)) = isl (fst (call c e w)) \<and>
   (fst (call (Condition_not m2 (Condition_not m1 c d1) d2) e w) =
      Inl (Err (ConditionNotMatchedError m2))) = isl (fst (call c e w)) \<and>
   snd (call (Condition_not m2 (Condition_not m1 c d1) d2) e w) = snd (call c e w)"
  by (cases "call c e w"; cases "fst (call c e w)")
    (simp_all add: Condition_not_def lambda_def)

theorem Condition_not_not_witness:
  "fst (call (Condition_not ''condition does not match''
     (Condition_not ''condition does not match'' (visibleFrom 1) None) None) ''#submit''
     (world submit)) = Inr () \<and>
   fst (call (Condition_not ''condition does not match''
     (Condition_not ''condition does not match'' neverVisible (Some ''is hidden'')) None)
     ''#submit'' (world submit)) = Inl (Err (ConditionNotMatchedError ''condition does not match'')) \<and>
   page (snd (call (Condition_not ''condition does not match''
     (Condition_not ''condition does not match'' neverVisible (Some ''is hidden'')) None)
     ''#submit'' (world submit))) = [''attempt'']"
  using Condition_not_not [of "''condition does not match''" "''condition does not match''"
      "visibleFrom 1" None None "''#submit''" "world submit"]
    Condition_not_not [of "''condition does not match''" "''condition does not match''"
      neverVisible "Some ''is hidden''" None "''#submit''" "world submit"]
  by (simp add: neverVisible_def visibleFrom_def submit_def tick_def)

text \<open>
  Claim C9. No call of \<^verbatim>\<open>query\<close>, \<^verbatim>\<open>until\<close> or \<^verbatim>\<open>command\<close>, and no sequence
  of such calls, with or without timeouts of their own, changes the object: after any of
  them the entity, the default timeout and the hooks are the ones the constructor stored.
\<close>

theorem Wait_fields_never_change:
  "self (final (query n toString f t s)) = self s \<and>
   self (final (until n toString c t s)) = self s \<and>
   self (final (command n toString c t s)) = self s \<and>
   self (invokeAll toString cs s) = self s \<and>
   entity (self (invokeAll toString cs \<lparr>self = new_Wait e d hs, world = w\<rparr>)) = e \<and>
   timeout (self (invokeAll toString cs \<lparr>self = new_Wait e d hs, world = w\<rparr>)) = d \<and>
   onFailureHooks (self (invokeAll toString cs \<lparr>self = new_Wait e d hs, world = w\<rparr>)) = hs"
  by (simp add: invokeAll_self query_self until_def command_def Let_def new_Wait_def)

theorem Wait_fields_never_change_witness:
  "self (invokeAll Inr
     [(Suc (Suc (Suc 0)), CallUntil neverVisible None),
      (Suc (Suc (Suc 0)), CallCommand (visibleFrom 3) (Some 5)),
      (Suc 0, CallQuery neverVisible (Some (- 1)))] submit) =
     new_Wait ''#submit'' 1 [snapshot] \<and>
   page (world (invokeAll Inr
     [(Suc (Suc (Suc 0)), CallUntil neverVisible None),
      (Suc (Suc (Suc 0)), CallCommand (visibleFrom 3) (Some 5)),
      (Suc 0, CallQuery neverVisible (Some (- 1)))] submit)) =
     [''attempt'', ''attempt'', ''attempt'', ''attempt'']"
proof -
  have s1: "invoke Inr (Suc (Suc (Suc 0)), CallUntil neverVisible None) submit =
      \<lparr>self = new_Wait ''#submit'' 1 [snapshot],
       world = \<lparr>getTime = 2, page = [''attempt'', ''attempt'']\<rparr>\<rparr>"
    by (simp add: until_def query_never)
  have s2: "invoke Inr (Suc (Suc (Suc 0)), CallCommand (visibleFrom 3) (Some 5))
      \<lparr>self = new_Wait ''#submit'' 1 [snapshot],
       world = \<lparr>getTime = 2, page = [''attempt'', ''attempt'']\<rparr>\<rparr> =
      \<lparr>self = new_Wait ''#submit'' 1 [snapshot],
       world = \<lparr>getTime = 3, page = [''attempt'', ''attempt'', ''attempt'']\<rparr>\<rparr>"
    by (simp add: command_def query_def visibleFrom_def tick_def)
  have s3: "invoke Inr (Suc 0, CallQuery neverVisible (Some (- 1)))
      \<lparr>self = new_Wait ''#submit'' 1 [snapshot],
       world = \<lparr>getTime = 3, page = [''attempt'', ''attempt'', ''attempt'']\<rparr>\<rparr> =
      \<lparr>self = new_Wait ''#submit'' 1 [snapshot],
       world = \<lparr>getTime = 4, page = [''attempt'', ''attempt'', ''attempt'', ''attempt'']\<rparr>\<rparr>"
    by (simp add: query_def neverVisible_def tick_def)
  have p: "page (world (invokeAll Inr
     [(Suc (Suc (Suc 0)), CallUntil neverVisible None),
      (Suc (Suc (Suc 0)), CallCommand (visibleFrom 3) (Some 5)),
      (Suc 0, CallQuery neverVisible (Some (- 1)))] submit)) =
     [''attempt'', ''attempt'', ''attempt'', ''attempt'']"
    by (simp only: invokeAll.simps s1 s2 s3 state.simps world.simps)
  have "self (invokeAll Inr
     [(Suc (Suc (Suc 0)), CallUntil neverVisible None),
      (Suc (Suc (Suc 0)), CallCommand (visibleFrom 3) (Some 5)),
      (Suc 0, CallQuery neverVisible (Some (- 1)))] submit) = self submit"
    by (rule Wait_fields_never_change [where toString = Inr and s = submit and
      cs = "[(Suc (Suc (Suc 0)), CallUntil neverVisible None),
      (Suc (Suc (Suc 0)), CallCommand (visibleFrom 3) (Some 5)),
      (Suc 0, CallQuery neverVisible (Some (- 1)))]",
      THEN conjunct2, THEN conjunct2, THEN conjunct2, THEN conjunct1])
  with p show ?thesis by (simp add: submit_def)
qed

text \<open>
  Claim C10. \<^verbatim>\<open>hasTexts(ts)\<close> and \<^verbatim>\<open>hasExactTexts(ts)\<close> are the same function of
  the entity and the world, for every list of texts; the two conditions differ in their
  descriptions and in nothing else, the descriptions do differ, and waiting
  \<^verbatim>\<open>until\<close> one of them holds is waiting until the other does.
\<close>

theorem hasTexts_hasExactTexts_same_behaviour:
  "call (hasTexts q p ts) = call (hasExactTexts q p ts) \<and>
   hasExactTexts q p ts =
     (hasTexts q p ts)\<lparr>description := ''has exact texts '' @ arrayToString ts\<rparr> \<and>
   description (hasTexts q p ts) = ''has texts '' @ arrayToString ts \<and>
   description (hasTexts q p ts) \<noteq> description (hasExactTexts q p ts) \<and>
   until n toString (hasTexts q p ts) t s = until n toString (hasExactTexts q p ts) t s"
proof -
  have c: "call (hasTexts q p ts) = call (hasExactTexts q p ts)"
    by (simp add: hasTexts_def hasExactTexts_def lambda_def)
  have u: "until n toString (hasTexts q p ts) t s = until n toString (hasExactTexts q p ts) t s"
    using retry_same_call [OF c]
    by (simp add: until_def query_def Let_def)
  show ?thesis
    using c u by (simp add: hasTexts_def hasExactTexts_def lambda_def)
qed

theorem hasTexts_hasExactTexts_witness:
  "fst (call (hasTexts shownTexts (=) [''Save'', ''Cancel'']) ''button''
     \<lparr>getTime = 0, page = [''Save'', ''Cancel'']\<rparr>) = Inr () \<and>
   fst (call (hasExactTexts shownTexts (=) [''Save'', ''Cancel'']) ''button''
     \<lparr>getTime = 0, page = [''Save'', ''Cancel'']\<rparr>) = Inr () \<and>
   fst (call (hasTexts shownTexts (=) [''Save'']) ''button''
     \<lparr>getTime = 0, page = [''Save'', ''Cancel'']\<rparr>) = Inl (Err (Error ''actual texts: Save,Cancel'')) \<and>
   fst (call (hasExactTexts shownTexts (=) [''Save'']) ''button''
     \<lparr>getTime = 0, page = [''Save'', ''Cancel'']\<rparr>) = Inl (Err (Error ''actual texts: Save,Cancel'')) \<and>
   description (hasTexts shownTexts (=) [''Save'', ''Cancel'']) = ''has texts Save,Cancel'' \<and>
   description (hasExactTexts shownTexts (=) [''Save'', ''Cancel'']) =
     ''has exact texts Save,Cancel''"
  using hasTexts_hasExactTexts_same_behaviour [of shownTexts "(=)" "[''Save'', ''Cancel'']"]
    hasTexts_hasExactTexts_same_behaviour [of shownTexts "(=)" "[''Save'']"]
  by (simp add: hasTexts_def hasExactTexts_def lambda_def throwIfNotActual_def shownTexts_def)

end
